theory Spec2Isabelle
  imports Main
begin

section \<open>Values\<close>

text \<open>
  The sorts of an exitus, in the order the constants are declared in the source:
  \<open>Ok\<close>, \<open>Failure\<close>, \<open>Traceback\<close> and the three control flow sorts. The control
  flow sorts carry a suffix, because \<open>Return\<close>, \<open>Break\<close> and \<open>Continue\<close> are also
  the causes of an exception in the special forms below.
\<close>

datatype exitusSort = Ok | Failure | Traceback | ReturnSort | BreakSort | ContinueSort

datatype exitus = MkExitus (Sort: exitusSort) (FailureMsg: string) (causes: "exitus list")

text \<open>
  A value of the shell: the cases of the interface \<open>Value\<close> that the verified
  functions distinguish (by a type assertion), and one case for every other kind.
\<close>

datatype val =
    String (str: string)
  | Bool bool
  | Exitus exitus
  | List "val list"
  | OtherValue string

section \<open>Failure detection in a list of values\<close>

text \<open>
  \<open>HasFailure\<close> walks the list: a value that is not an exitus is skipped, the first
  exitus whose sort is not \<open>Ok\<close> makes the result true, the end of the list makes
  it false.
\<close>

fun HasFailure :: "val list \<Rightarrow> bool" where
  "HasFailure [] = False"
| "HasFailure (v # vs) =
     (case v of
        Exitus e \<Rightarrow> (if Sort e \<noteq> Ok then True else HasFailure vs)
      | _ \<Rightarrow> HasFailure vs)"

section \<open>Errors and panics\<close>

text \<open>
  The values of Go's type \<open>error\<close> that the verified functions create or compare
  with: the three control flows, the named errors of the special forms and of the
  working-directory variable, and \<open>Errorf\<close> for every other error, with its message.
\<close>

datatype error =
    Return | Break | Continue
  | ErrNoLibDir
  | ErrRelativeUseNotFromMod
  | ErrRelativeUseGoesOutsideLib
  | ErrPathMustBeString
  | Errorf string

text \<open>
  An exception is an error with the traceback of the frame that caught it; a
  protected call (\<open>PCall\<close>, \<open>PEval\<close>) returns one or nil.
\<close>

datatype Exception = Exception (Cause: error) (Traceback: "string list")

text \<open>
  What \<open>throw\<close> is given and the unwinding carries: any error value, an
  exception (re-thrown) or a plain error. A function that can throw returns
  \<open>thrown + 'a\<close>, or \<open>thrown option\<close> when it has no result.
\<close>

datatype thrown = Plain error | Exc Exception

text \<open>Run-time panics of Go itself, which no handler of the shell catches.\<close>

datatype panic = NilDereference | CloseOfNilChannel | CloseOfClosedChannel

section \<open>Ports\<close>

text \<open>
  A port holds a file and a channel, both pointers (\<open>None\<close> is nil), and the two
  flags that say whether closing the port closes them. Files and channels are
  named by numbers.
\<close>

record Port =
  File :: "nat option"
  Chan :: "nat option"
  CloseFile :: bool
  CloseChan :: bool

text \<open>
  The effect of closing is recorded as the sequence of close operations performed
  so far, oldest first. A channel is closed when the sequence holds its close.
\<close>

datatype closeEvent = FileClose nat | ChanClose nat

text \<open>
  \<open>Fork\<close> reads the fields of its receiver, so a nil receiver is a nil
  dereference; otherwise the result is a new port with the flags unset.
\<close>

fun Fork :: "Port option \<Rightarrow> panic + Port" where
  "Fork None = Inl NilDereference"
| "Fork (Some p) = Inr \<lparr>File = File p, Chan = Chan p, CloseFile = False, CloseChan = False\<rparr>"

text \<open>
  \<open>p.File.Close()\<close>: the method of \<open>os.File\<close> returns an error on a nil file and
  the port ignores what it returns; on a file it is one close operation.
\<close>

fun fileClose :: "nat option \<Rightarrow> closeEvent list \<Rightarrow> closeEvent list" where
  "fileClose None tr = tr"
| "fileClose (Some fd) tr = tr @ [FileClose fd]"

text \<open>\<open>close(p.Chan)\<close>: Go panics on a nil channel and on a channel already closed.\<close>

fun chanClose :: "nat option \<Rightarrow> closeEvent list \<Rightarrow> panic option \<times> closeEvent list" where
  "chanClose None tr = (Some CloseOfNilChannel, tr)"
| "chanClose (Some c) tr =
     (if ChanClose c \<in> set tr then (Some CloseOfClosedChannel, tr)
      else (None, tr @ [ChanClose c]))"

fun Close :: "Port option \<Rightarrow> closeEvent list \<Rightarrow> panic option \<times> closeEvent list" where
  "Close None tr = (None, tr)"
| "Close (Some p) tr =
     (let tr1 = (if CloseFile p then fileClose (File p) tr else tr)
      in if CloseChan p then chanClose (Chan p) tr1 else (None, tr1))"

fun ClosePorts :: "Port option list \<Rightarrow> closeEvent list \<Rightarrow> panic option \<times> closeEvent list" where
  "ClosePorts [] tr = (None, tr)"
| "ClosePorts (port # ports) tr =
     (case Close port tr of
        (None, tr') \<Rightarrow> ClosePorts ports tr'
      | (Some e, tr') \<Rightarrow> (Some e, tr'))"

section \<open>The working-directory variable\<close>

text \<open>
  The operating system is a state \<open>'os\<close>; \<open>getwd\<close> is \<open>os.Getwd\<close>, which returns
  the directory or an error. \<open>chdir\<close> is the function \<open>Chdir\<close> of the package,
  whose source is not part of the verified files: it is a parameter, given the
  path, the store of the variable and the state.
\<close>

record 'st PwdVariable =
  store :: 'st

definition PwdVariable_Get :: "('os \<Rightarrow> error + string) \<Rightarrow> 'os \<Rightarrow> thrown + val" where
  "PwdVariable_Get getwd os =
     (case getwd os of
        Inl err \<Rightarrow> Inl (Plain err)
      | Inr pwd \<Rightarrow> Inr (String pwd))"

definition PwdVariable_Set ::
  "(string \<Rightarrow> 'st \<Rightarrow> 'os \<Rightarrow> error option \<times> 'os) \<Rightarrow> 'st PwdVariable \<Rightarrow> val \<Rightarrow> 'os
     \<Rightarrow> error option \<times> 'os" where
  "PwdVariable_Set chdir pwd v os =
     (case v of
        String path \<Rightarrow> chdir path (store pwd) os
      | _ \<Rightarrow> (Some ErrPathMustBeString, os))"

section \<open>Namespaces\<close>

text \<open>
  A variable, as far as the verified functions make one: \<open>newInternalVariable\<close> of
  a value, \<open>newEnvVariable\<close> of a name, and \<open>NewPtr\<close> of a namespace, which is
  named by its reference.
\<close>

datatype Variable = InternalVariable val | EnvVariable string | PtrVariable nat

text \<open>
  A namespace is a Go map from names to variables. A Go map is a reference: two
  fields that hold the same map see each other's insertions and deletions. So a
  field of type \<open>ns\<close> holds a reference, a number, and the contents of all maps are
  kept in a store, from references to contents.
\<close>

type_synonym ns = "string \<rightharpoonup> Variable"

type_synonym nsStore = "nat \<Rightarrow> ns"

text \<open>The assignment \<open>m[k] = v\<close> and the builtin \<open>delete(m, k)\<close> on the map at \<open>m\<close>.\<close>

definition mapAssign :: "nat \<Rightarrow> string \<Rightarrow> Variable \<Rightarrow> nsStore \<Rightarrow> nsStore" where
  "mapAssign m k v st = st(m := (st m)(k \<mapsto> v))"

definition mapDelete :: "nat \<Rightarrow> string \<Rightarrow> nsStore \<Rightarrow> nsStore" where
  "mapDelete m k st = st(m := (st m)(k := None))"

section \<open>The evaluation context and its copy\<close>

text \<open>
  The shared part of the runtime. The field \<open>mod\<close> of the source is \<open>modNs\<close> here
  and \<open>store\<close> is \<open>dirStore\<close>, a reference.
\<close>

record Evaler =
  global :: nat
  modNs :: "string \<rightharpoonup> nat"
  searchPaths :: "string list"
  dirStore :: nat

text \<open>
  A port of the evaluation context: file, channel and the two flags that say
  whether to close them (the fields \<open>f\<close>, \<open>ch\<close>, \<open>closeF\<close>, \<open>closeCh\<close>).
\<close>

record port =
  portF :: "nat option"
  portCh :: "nat option"
  closeF :: bool
  closeCh :: bool

text \<open>
  The evaluation context. \<open>text\<close> and \<open>context\<close> are \<open>srcText\<close> and \<open>ctxLabel\<close>
  here. The evaler is shared by every context and the verified functions only
  read it; \<open>local\<close> and \<open>up\<close> hold references to maps; \<open>ports\<close> is a list of
  pointers, nil among them where \<open>growPorts\<close> has padded it.
\<close>

record evalCtx =
  Evaler :: Evaler
  name :: string
  srcText :: string
  ctxLabel :: string
  local :: nat
  up :: nat
  ports :: "port option list"

text \<open>
  The loop of \<open>copy\<close> over the ports: each port is read through its pointer (a
  nil one is a nil dereference) and a new port is made, with both flags false.
\<close>

fun copyPorts :: "port option list \<Rightarrow> panic + port option list" where
  "copyPorts [] = Inr []"
| "copyPorts (None # ps) = Inl NilDereference"
| "copyPorts (Some p # ps) =
     (case copyPorts ps of
        Inl e \<Rightarrow> Inl e
      | Inr newPorts \<Rightarrow>
          Inr (Some \<lparr>portF = portF p, portCh = portCh p, closeF = False, closeCh = False\<rparr>
                 # newPorts))"

text \<open>
  \<open>copy\<close>: the new context takes every field of the old one as it is, the two
  namespace references among them, except the label and the ports.
\<close>

definition copy :: "evalCtx \<Rightarrow> string \<Rightarrow> panic + evalCtx" where
  "copy ec newContext =
     (case copyPorts (ports ec) of
        Inl e \<Rightarrow> Inl e
      | Inr newPorts \<Rightarrow>
          Inr \<lparr>Evaler = Evaler ec,
               name = name ec, srcText = srcText ec, ctxLabel = newContext,
               local = local ec, up = up ec,
               ports = newPorts\<rparr>)"

text \<open>
  The operation that \<open>del\<close> compiles to for a local variable: it deletes the name
  from the map that the field \<open>local\<close> of the frame refers to. (The frame is the
  evaluation context: the file of the special forms calls its type \<open>Frame\<close>.)
\<close>

definition newDelLocalVariableOp :: "string \<Rightarrow> evalCtx \<Rightarrow> nsStore \<Rightarrow> nsStore" where
  "newDelLocalVariableOp name' f st = mapDelete (local f) name' st"


text \<open>
  An example for the statements below: a context with the global namespace at
  reference 0, its local namespace at 1, its up namespace at 2 and a module \<open>m\<close>
  at 3; the fork that \<open>copy\<close> makes of it; and a store where the global
  namespace holds \<open>true\<close>, the local one \<open>x\<close> and the module \<open>y\<close>.
\<close>

definition exampleCtx :: evalCtx where
  "exampleCtx =
     \<lparr>Evaler = \<lparr>global = 0, modNs = [''m'' \<mapsto> 3], searchPaths = [''/bin''], dirStore = 0\<rparr>,
      name = ''example'', srcText = ''put $x'', ctxLabel = ''top'',
      local = 1, up = 2,
      ports = [Some \<lparr>portF = Some 0, portCh = None, closeF = False, closeCh = False\<rparr>,
               Some \<lparr>portF = Some 1, portCh = Some 0, closeF = False, closeCh = True\<rparr>]\<rparr>"

definition exampleFork :: evalCtx where
  "exampleFork =
     \<lparr>Evaler = \<lparr>global = 0, modNs = [''m'' \<mapsto> 3], searchPaths = [''/bin''], dirStore = 0\<rparr>,
      name = ''example'', srcText = ''put $x'', ctxLabel = ''fork'',
      local = 1, up = 2,
      ports = [Some \<lparr>portF = Some 0, portCh = None, closeF = False, closeCh = False\<rparr>,
               Some \<lparr>portF = Some 1, portCh = Some 0, closeF = False, closeCh = False\<rparr>]\<rparr>"

definition exampleStore :: nsStore where
  "exampleStore =
     (\<lambda>r. Map.empty)
       (0 := [''true'' \<mapsto> InternalVariable (Bool True)],
        1 := [''x'' \<mapsto> InternalVariable (String ''1'')],
        3 := [''y'' \<mapsto> InternalVariable (String ''2'')])"

section \<open>Special forms: and, or\<close>

text \<open>
  The state that the operations of a form work on is a type \<open>'s\<close>: an operation
  is a function of the state that returns the state it leaves, with its values
  or with what it threw. The frame that the source passes to every operation is
  the same for all of them and is part of the operation here.

  \<open>types.ToBool\<close> and the send on the output channel of the frame are not in
  the verified files; they are the parameters \<open>toBool\<close> and \<open>send\<close>.
\<close>

text \<open>
  The inner loop over the values of one argument: \<open>Inl\<close> is the value at which
  the form stops, \<open>Inr\<close> the last value seen when it does not stop.
\<close>

fun scanValues :: "(val \<Rightarrow> bool) \<Rightarrow> bool \<Rightarrow> val \<Rightarrow> val list \<Rightarrow> val + val" where
  "scanValues toBool stopAt lastValue [] = Inr lastValue"
| "scanValues toBool stopAt lastValue (value # values) =
     (if toBool value = stopAt then Inl value
      else scanValues toBool stopAt value values)"

text \<open>The outer loop over the operations of the arguments.\<close>

fun andOrLoop ::
  "(val \<Rightarrow> bool) \<Rightarrow> (val \<Rightarrow> 's \<Rightarrow> 's) \<Rightarrow> bool \<Rightarrow> val
     \<Rightarrow> ('s \<Rightarrow> (thrown + val list) \<times> 's) list \<Rightarrow> 's \<Rightarrow> thrown option \<times> 's" where
  "andOrLoop toBool send stopAt lastValue [] s = (None, send lastValue s)"
| "andOrLoop toBool send stopAt lastValue (op # argOps) s =
     (case op s of
        (Inl t, s') \<Rightarrow> (Some t, s')
      | (Inr values, s') \<Rightarrow>
          (case scanValues toBool stopAt lastValue values of
             Inl value \<Rightarrow> (None, send value s')
           | Inr lastValue' \<Rightarrow> andOrLoop toBool send stopAt lastValue' argOps s'))"

definition compileAndOr ::
  "(val \<Rightarrow> bool) \<Rightarrow> (val \<Rightarrow> 's \<Rightarrow> 's) \<Rightarrow> bool \<Rightarrow> bool
     \<Rightarrow> ('s \<Rightarrow> (thrown + val list) \<times> 's) list \<Rightarrow> 's \<Rightarrow> thrown option \<times> 's" where
  "compileAndOr toBool send init stopAt argOps s =
     andOrLoop toBool send stopAt (Bool init) argOps s"

definition compileAnd ::
  "(val \<Rightarrow> bool) \<Rightarrow> (val \<Rightarrow> 's \<Rightarrow> 's)
     \<Rightarrow> ('s \<Rightarrow> (thrown + val list) \<times> 's) list \<Rightarrow> 's \<Rightarrow> thrown option \<times> 's" where
  "compileAnd toBool send argOps s = compileAndOr toBool send True False argOps s"

definition compileOr ::
  "(val \<Rightarrow> bool) \<Rightarrow> (val \<Rightarrow> 's \<Rightarrow> 's)
     \<Rightarrow> ('s \<Rightarrow> (thrown + val list) \<times> 's) list \<Rightarrow> 's \<Rightarrow> thrown option \<times> 's" where
  "compileOr toBool send argOps s = compileAndOr toBool send False True argOps s"

text \<open>
  For the statements about these forms: what a list of operations produces when
  all of them are executed in order, the values of all of them one after the
  other, or what the first failing one threw.
\<close>

fun producedBy ::
  "('s \<Rightarrow> (thrown + val list) \<times> 's) list \<Rightarrow> 's \<Rightarrow> (thrown + val list) \<times> 's" where
  "producedBy [] s = (Inr [], s)"
| "producedBy (op # ops) s =
     (case op s of
        (Inl t, s') \<Rightarrow> (Inl t, s')
      | (Inr values, s') \<Rightarrow>
          (case producedBy ops s' of
             (Inl t, s'') \<Rightarrow> (Inl t, s'')
           | (Inr rest, s'') \<Rightarrow> (Inr (values @ rest), s'')))"

text \<open>
  Modelled from the spec: \<open>types.ToBool\<close>, which is not among the verified files.
  The spec counts as false the boolean false, the empty string and the empty
  container, and every other value as true (the values here have no numbers, so
  its numerical zero has no case).
\<close>

fun ToBool :: "val \<Rightarrow> bool" where
  "ToBool (Bool b) = b"
| "ToBool (String s) = (s \<noteq> [])"
| "ToBool (List vs) = (vs \<noteq> [])"
| "ToBool (Exitus e) = True"
| "ToBool (OtherValue x) = True"

section \<open>Special forms: while\<close>

text \<open>
  The loop of \<open>while\<close>. \<open>condOp\<close> is the condition, executed on a fork of the
  frame; \<open>body\<close> is the protected call of the body on another fork, which returns
  the exception that the body raised, or nil. \<open>allTrue\<close> is not in the verified
  files and is a parameter. The loop of the source has no bound: the first
  argument here is the number of iterations allowed, and \<open>None\<close> says that the
  loop has not returned within them.
\<close>

fun whileLoop ::
  "nat \<Rightarrow> (val list \<Rightarrow> bool) \<Rightarrow> ('s \<Rightarrow> (thrown + val list) \<times> 's)
     \<Rightarrow> ('s \<Rightarrow> Exception option \<times> 's) \<Rightarrow> 's \<Rightarrow> (thrown option \<times> 's) option" where
  "whileLoop 0 allTrue condOp body s = None"
| "whileLoop (Suc n) allTrue condOp body s =
     (case condOp s of
        (Inl t, s1) \<Rightarrow> Some (Some t, s1)
      | (Inr cond, s1) \<Rightarrow>
          if \<not> allTrue cond then Some (None, s1)
          else
            (case body s1 of
               (None, s2) \<Rightarrow> whileLoop n allTrue condOp body s2
             | (Some exc, s2) \<Rightarrow>
                 if Cause exc = Continue then whileLoop n allTrue condOp body s2
                 else if Cause exc = Break then whileLoop n allTrue condOp body s2
                 else Some (Some (Exc exc), s2)))"

section \<open>Special forms: try\<close>

text \<open>
  What an operation that is known to yield a lambda yields: values, of which a
  lambda is a callable \<open>'c\<close> and any other value is not.
\<close>

datatype 'c yield = Lambda 'c | Other val

text \<open>
  How the operation of a form can fail: with something thrown, or with a
  run-time panic of Go, for an index out of range, for the conversion of a
  value that is not a callable, or for the call of a nil callable.
\<close>

datatype failure = Throw thrown | IndexOutOfRange | NotCallable | NilCallable

text \<open>
  \<open>execlambdaOp\<close>: nil for an empty operation (\<open>None\<close>, its function is nil);
  otherwise the operation is executed, which may throw, and the first of its
  values is converted to a callable.
\<close>

definition execlambdaOp ::
  "('s \<Rightarrow> (thrown + 'c yield list) \<times> 's) option \<Rightarrow> 's \<Rightarrow> (failure + 'c option) \<times> 's" where
  "execlambdaOp op s =
     (case op of
        None \<Rightarrow> (Inr None, s)
      | Some exec \<Rightarrow>
          (case exec s of
             (Inl t, s') \<Rightarrow> (Inl (Throw t), s')
           | (Inr vs, s') \<Rightarrow>
               (case vs of
                  [] \<Rightarrow> (Inl IndexOutOfRange, s')
                | Lambda c # _ \<Rightarrow> (Inr (Some c), s')
                | Other v # _ \<Rightarrow> (Inl NotCallable, s'))))"

text \<open>
  \<open>execMustOne\<close>: nil for an empty operation; otherwise the operation is
  executed, which may throw, and must give exactly one variable, or the error
  of \<open>errorpf\<close> is thrown.
\<close>

definition execMustOne ::
  "('s \<Rightarrow> (thrown + 'v list) \<times> 's) option \<Rightarrow> 's \<Rightarrow> (failure + 'v option) \<times> 's" where
  "execMustOne op s =
     (case op of
        None \<Rightarrow> (Inr None, s)
      | Some exec \<Rightarrow>
          (case exec s of
             (Inl t, s') \<Rightarrow> (Inl (Throw t), s')
           | (Inr variables, s') \<Rightarrow>
               (case variables of
                  [variable] \<Rightarrow> (Inr (Some variable), s')
                | _ \<Rightarrow> (Inl (Throw (Plain (Errorf ''should be one variable''))), s'))))"

text \<open>
  The second part of the operation of \<open>try\<close>, from the protected call of the
  body on. \<open>body\<close>, \<open>except\<close> and \<open>elseBody\<close> (\<open>else_\<close> in the source) are the
  protected calls of the three lambdas, each on its fork, returning an exception
  or nil; \<open>finally\<close> is the plain call of the fourth, which throws what its body
  throws; \<open>exceptVar\<close> is the method \<open>Set\<close> of the variable of the except clause,
  which returns an error or nil. All but the body may be absent (nil).
\<close>

definition tryCalls ::
  "('s \<Rightarrow> Exception option \<times> 's)
     \<Rightarrow> (Exception \<Rightarrow> 's \<Rightarrow> error option \<times> 's) option
     \<Rightarrow> ('s \<Rightarrow> Exception option \<times> 's) option
     \<Rightarrow> ('s \<Rightarrow> Exception option \<times> 's) option
     \<Rightarrow> ('s \<Rightarrow> thrown option \<times> 's) option
     \<Rightarrow> 's \<Rightarrow> thrown option \<times> 's" where
  "tryCalls body exceptVar except elseBody finally s =
     (case body s of (err, s1) \<Rightarrow>
        (case
           (case err of
              Some exc \<Rightarrow>
                (case except of
                   Some exceptCall \<Rightarrow>
                     (case exceptVar of
                        Some setVar \<Rightarrow>
                          (case setVar exc s1 of
                             (Some e, s1') \<Rightarrow> Inl (Plain e, s1')
                           | (None, s1') \<Rightarrow> Inr (exceptCall s1'))
                      | None \<Rightarrow> Inr (exceptCall s1))
                 | None \<Rightarrow> Inr (err, s1))
            | None \<Rightarrow>
                (case elseBody of
                   Some elseCall \<Rightarrow> Inr (elseCall s1)
                 | None \<Rightarrow> Inr (err, s1)))
         of
           Inl (t, s') \<Rightarrow> (Some t, s')
         | Inr (err', s2) \<Rightarrow>
             (case (case finally of
                      Some finallyCall \<Rightarrow> finallyCall s2
                    | None \<Rightarrow> (None, s2)) of
                (Some t, s3) \<Rightarrow> (Some t, s3)
              | (None, s3) \<Rightarrow>
                  (case err' of
                     Some exc' \<Rightarrow> (Some (Exc exc'), s3)
                   | None \<Rightarrow> (None, s3)))))"

text \<open>
  The operation of \<open>try\<close>. It first evaluates its five operands in the order of
  the source, the body, the variable of the except clause, the except, else
  and finally lambdas; a failure of one of them is the failure of the form.
  Then it makes the calls above. \<open>PCall\<close>, \<open>Call\<close> and \<open>Set\<close> are not in the
  verified files and are parameters: the protected call and the plain call of
  a callable on the fork of the frame with the given label, and the method
  \<open>Set\<close> of a variable.
\<close>

definition compileTry ::
  "(string \<Rightarrow> 'c \<Rightarrow> 's \<Rightarrow> Exception option \<times> 's)
     \<Rightarrow> (string \<Rightarrow> 'c \<Rightarrow> 's \<Rightarrow> thrown option \<times> 's)
     \<Rightarrow> ('v \<Rightarrow> Exception \<Rightarrow> 's \<Rightarrow> error option \<times> 's)
     \<Rightarrow> ('s \<Rightarrow> (thrown + 'c yield list) \<times> 's) option
     \<Rightarrow> ('s \<Rightarrow> (thrown + 'v list) \<times> 's) option
     \<Rightarrow> ('s \<Rightarrow> (thrown + 'c yield list) \<times> 's) option
     \<Rightarrow> ('s \<Rightarrow> (thrown + 'c yield list) \<times> 's) option
     \<Rightarrow> ('s \<Rightarrow> (thrown + 'c yield list) \<times> 's) option
     \<Rightarrow> 's \<Rightarrow> failure option \<times> 's" where
  "compileTry PCall Call Set bodyOp exceptVarOp exceptOp elseOp finallyOp s =
     (case execlambdaOp bodyOp s of
        (Inl f, sa) \<Rightarrow> (Some f, sa)
      | (Inr body, sa) \<Rightarrow>
     (case execMustOne exceptVarOp sa of
        (Inl f, sb) \<Rightarrow> (Some f, sb)
      | (Inr exceptVar, sb) \<Rightarrow>
     (case execlambdaOp exceptOp sb of
        (Inl f, sc) \<Rightarrow> (Some f, sc)
      | (Inr except, sc) \<Rightarrow>
     (case execlambdaOp elseOp sc of
        (Inl f, sd) \<Rightarrow> (Some f, sd)
      | (Inr elseBody, sd) \<Rightarrow>
     (case execlambdaOp finallyOp sd of
        (Inl f, s0) \<Rightarrow> (Some f, s0)
      | (Inr finally, s0) \<Rightarrow>
          (case body of
             None \<Rightarrow> (Some NilCallable, s0)
           | Some b \<Rightarrow>
               (case tryCalls (PCall ''try body'' b) (map_option Set exceptVar)
                       (map_option (PCall ''try except'') except)
                       (map_option (PCall ''try else'') elseBody)
                       (map_option (Call ''try finally'') finally) s0 of
                  (r, s') \<Rightarrow> (map_option Throw r, s'))))))))"

text \<open>
  An example for the statements below. The state lists what was executed. A
  callable is a name: the protected call of \<open>fail\<close> raises \<open>boom\<close> and that of
  \<open>fail again\<close> raises \<open>again\<close>, the plain call of \<open>fail late\<close> throws \<open>late\<close>,
  every other call completes. A variable is a boolean, which says whether it
  accepts what is set. \<open>lambdaOp\<close> is the operation that yields a lambda.
\<close>

definition examplePCall :: "string \<Rightarrow> string \<Rightarrow> string list \<Rightarrow> Exception option \<times> string list" where
  "examplePCall label c s =
     (if c = ''fail'' then Some (Exception (Errorf ''boom'') [])
      else if c = ''fail again'' then Some (Exception (Errorf ''again'') [])
      else None,
      s @ [label])"

definition exampleCall :: "string \<Rightarrow> string \<Rightarrow> string list \<Rightarrow> thrown option \<times> string list" where
  "exampleCall label c s =
     (if c = ''fail late'' then Some (Plain (Errorf ''late'')) else None, s @ [label])"

definition exampleSet :: "bool \<Rightarrow> Exception \<Rightarrow> string list \<Rightarrow> error option \<times> string list" where
  "exampleSet accepts exc s = (if accepts then None else Some ErrPathMustBeString, s @ [''set''])"

definition lambdaOp :: "string \<Rightarrow> (string list \<Rightarrow> (thrown + string yield list) \<times> string list) option" where
  "lambdaOp c = Some (\<lambda>s. (Inr [Lambda c], s))"

section \<open>Paths\<close>

text \<open>
  The functions of Go's packages \<open>strings\<close> and \<open>path/filepath\<close> that \<open>use\<close> and
  \<open>loadModule\<close> call, with \<open>/\<close> as the separator and no volume names.
\<close>

definition HasPrefix :: "string \<Rightarrow> string \<Rightarrow> bool" where
  "HasPrefix s prefix = (take (length prefix) s = prefix)"

text \<open>The elements of a path: what stands between its separators.\<close>

fun splitSlash :: "string \<Rightarrow> string list" where
  "splitSlash [] = [[]]"
| "splitSlash (c # cs) =
     (case splitSlash cs of
        [] \<Rightarrow> [[c]]
      | e # es \<Rightarrow> if c = CHR ''/'' then [] # e # es else (c # e) # es)"

text \<open>
  The loop of \<open>Clean\<close>, element by element; \<open>out\<close> is the output so far, last
  element first. An empty element and \<open>.\<close> are dropped. \<open>..\<close> removes the
  element before it when there is one that is not itself \<open>..\<close>; otherwise it is
  dropped in a rooted path and kept in another. Every other element is kept.
\<close>

fun cleanElems :: "bool \<Rightarrow> string list \<Rightarrow> string list \<Rightarrow> string list" where
  "cleanElems rooted [] out = rev out"
| "cleanElems rooted (e # es) out =
     (if e = [] \<or> e = ''.'' then cleanElems rooted es out
      else if e = ''..'' then
        (case out of
           [] \<Rightarrow> if rooted then cleanElems rooted es [] else cleanElems rooted es [''..'']
         | x # out' \<Rightarrow>
             if x = ''..'' then cleanElems rooted es (''..'' # out)
             else cleanElems rooted es out')
      else cleanElems rooted es (e # out))"

fun joinSlash :: "string list \<Rightarrow> string" where
  "joinSlash [] = []"
| "joinSlash [e] = e"
| "joinSlash (e # es) = e @ ''/'' @ joinSlash es"

definition Clean :: "string \<Rightarrow> string" where
  "Clean p =
     (if p = [] then ''.''
      else
        (let rooted = (hd p = CHR ''/'');
             out = (if rooted then ''/'' else []) @ joinSlash (cleanElems rooted (splitSlash p) [])
         in if out = [] then ''.'' else out))"

text \<open>\<open>Dir\<close>: the path up to and with its last separator, cleaned.\<close>

definition Dir :: "string \<Rightarrow> string" where
  "Dir p = Clean (rev (dropWhile (\<lambda>c. c \<noteq> CHR ''/'') (rev p)))"

text \<open>\<open>Join\<close> of two elements: empty elements are ignored, the rest is cleaned.\<close>

definition Join :: "string \<Rightarrow> string \<Rightarrow> string" where
  "Join a b =
     (if a \<noteq> [] then Clean (a @ ''/'' @ b)
      else if b \<noteq> [] then Clean b
      else [])"

section \<open>Frames and the world of the special forms\<close>

text \<open>
  Modelled from the spec: the kinds of a source (top level, module, string
  evaluation), whose declaration is not among the verified files; the special
  forms only compare with \<open>SrcModule\<close>.
\<close>

datatype srcType = SrcTopLevel | SrcModule | SrcStringEval

record srcMeta =
  "typ" :: srcType
  name :: string
  path :: string
  code :: string

text \<open>
  Modelled from the spec: \<open>NewModuleSource\<close>, which is not among the verified
  files, makes the metadata of a module from its name, path and code.
\<close>

definition NewModuleSource :: "string \<Rightarrow> string \<Rightarrow> string \<Rightarrow> srcMeta" where
  "NewModuleSource n p c = \<lparr>typ = SrcModule, name = n, path = p, code = c\<rparr>"

text \<open>
  The frame of the special forms, field by field as \<open>loadModule\<close> fills it
  (\<open>begin\<close> and \<open>end\<close> are \<open>beginPos\<close> and \<open>endPos\<close> here), without the pointer
  to the evaler: there is one evaler, and what it holds is in the world below.
\<close>

record Frame =
  srcMeta :: srcMeta
  local :: nat
  up :: nat
  ports :: "Port option list"
  beginPos :: nat
  endPos :: nat
  traceback :: "string list"
  background :: bool

text \<open>
  What the special forms change: the contents of the namespaces, the next
  reference not in use, and the module cache of the evaler, from resolved paths
  to references of namespaces. A module body may change more than that; the
  record is extensible for it.
\<close>

record world =
  nsMaps :: nsStore
  nsNext :: nat
  modules :: "string \<rightharpoonup> nat"

text \<open>\<open>Ns{}\<close> and \<open>make(Ns)\<close>: a new, empty map.\<close>

definition newNs :: "'a world_scheme \<Rightarrow> nat \<times> 'a world_scheme" where
  "newNs w = (nsNext w, w\<lparr>nsMaps := (nsMaps w)(nsNext w := Map.empty), nsNext := Suc (nsNext w)\<rparr>)"

text \<open>
  What \<open>loadModule\<close> and \<open>use\<close> take from outside the verified files: the
  library directory and the bundled modules of the evaler; the constant
  \<open>NsSuffix\<close>; the file system, as \<open>statNotExist\<close> (\<open>os.Stat\<close> fails with an
  error for which \<open>os.IsNotExist\<close> holds) and \<open>readFileUTF8\<close>; the parser; the
  compiler, which gives an operation, a function of the frame it is executed
  in and of the world, that returns the exception of its protected evaluation
  or nil; and \<open>addTraceback\<close>.
\<close>

record ('n, 'a) env =
  libDir :: string
  bundled :: "string \<rightharpoonup> string"
  NsSuffix :: string
  statNotExist :: "string \<Rightarrow> bool"
  readFileUTF8 :: "string \<Rightarrow> error + string"
  Parse :: "string \<Rightarrow> string \<Rightarrow> error + 'n"
  Compile :: "Frame \<Rightarrow> 'n \<Rightarrow> srcMeta
    \<Rightarrow> error + (Frame \<Rightarrow> 'a world_scheme \<Rightarrow> Exception option \<times> 'a world_scheme)"
  addTraceback :: "Frame \<Rightarrow> string list"

section \<open>Special forms: use\<close>

text \<open>
  The part of \<open>loadModule\<close> that finds the source of a module that is not in
  the cache: the file of the library directory or else the bundled module. The
  result is the path and the code, or the error thrown.
\<close>

definition moduleSource :: "('n, 'a) env \<Rightarrow> string \<Rightarrow> error + string \<times> string" where
  "moduleSource env n =
     (let p = Join (libDir env) (n @ ''.elv'') in
      if statNotExist env p then
        (case bundled env n of
           Some c \<Rightarrow> Inr (''<builtin module>'', c)
         | None \<Rightarrow> Inl (Errorf (''cannot load '' @ n @ '': '' @ p @ '' does not exist'')))
      else
        (case readFileUTF8 env p of
           Inl err \<Rightarrow> Inl err
         | Inr c \<Rightarrow> Inr (p, c)))"

text \<open>The frame that \<open>loadModule\<close> makes for the module, on its two new maps.\<close>

definition moduleFrame ::
  "('n, 'a) env \<Rightarrow> Frame \<Rightarrow> srcMeta \<Rightarrow> nat \<Rightarrow> nat \<Rightarrow> Frame" where
  "moduleFrame env ec meta modGlobal upNs =
     \<lparr>srcMeta = meta,
      local = modGlobal, up = upNs,
      ports = ports ec,
      beginPos = 0, endPos = length (code meta), traceback = addTraceback env ec,
      background = False\<rparr>"

definition loadModule ::
  "('n, 'a) env \<Rightarrow> Frame \<Rightarrow> string \<Rightarrow> 'a world_scheme \<Rightarrow> (thrown + nat) \<times> 'a world_scheme" where
  "loadModule env ec n w =
     (case modules w n of
        Some ns \<Rightarrow> (Inr ns, w)
      | None \<Rightarrow>
          if libDir env = [] then (Inl (Plain ErrNoLibDir), w)
          else
            (case moduleSource env n of
               Inl err \<Rightarrow> (Inl (Plain err), w)
             | Inr (p, c) \<Rightarrow>
                 (case Parse env n c of
                    Inl err \<Rightarrow> (Inl (Plain err), w)
                  | Inr tree \<Rightarrow>
                      (let meta = NewModuleSource n p c;
                           (modGlobal, wa) = newNs w;
                           (upNs, wb) = newNs wa;
                           newEc = moduleFrame env ec meta modGlobal upNs
                       in case Compile env newEc tree meta of
                            Inl err \<Rightarrow> (Inl (Plain err), wb)
                          | Inr op \<Rightarrow>
                              (case op newEc (wb\<lparr>modules := (modules wb)(n \<mapsto> modGlobal)\<rparr>) of
                                 (Some exc, w') \<Rightarrow>
                                   (Inl (Exc exc), w'\<lparr>modules := (modules w')(n := None)\<rparr>)
                               | (None, w') \<Rightarrow> (Inr modGlobal, w'))))))"

definition use ::
  "('n, 'a) env \<Rightarrow> Frame \<Rightarrow> string \<Rightarrow> string \<Rightarrow> 'a world_scheme
     \<Rightarrow> thrown option \<times> 'a world_scheme" where
  "use env ec modname modpath w =
     (case
        (if HasPrefix modpath ''./'' \<or> HasPrefix modpath ''../'' then
           (if typ (srcMeta ec) \<noteq> SrcModule then Inl ErrRelativeUseNotFromMod
            else Inr (Clean (Dir (name (srcMeta ec)) @ ''/'' @ modpath)))
         else Inr (Clean modpath))
      of
        Inl err \<Rightarrow> (Some (Plain err), w)
      | Inr resolvedPath \<Rightarrow>
          if HasPrefix resolvedPath ''../'' then (Some (Plain ErrRelativeUseGoesOutsideLib), w)
          else
            (case loadModule env ec resolvedPath w of
               (Inl t, w') \<Rightarrow> (Some t, w')
             | (Inr ns, w') \<Rightarrow>
                 (None,
                  w'\<lparr>nsMaps :=
                       mapAssign (local ec) (modname @ NsSuffix env) (PtrVariable ns) (nsMaps w')\<rparr>)))"

text \<open>
  An example for the statements below: a library directory without files and
  three bundled modules, \<open>ok\<close>, \<open>bad\<close> and \<open>a/x\<close>; a parser that returns the code as the
  tree; a compiler whose operation raises for the code of \<open>bad\<close> and completes
  for any other; the frame of a module \<open>a/b/c\<close>; and a world with no namespace
  and no module yet.
\<close>

definition exampleEnv :: "(string, unit) env" where
  "exampleEnv =
     \<lparr>libDir = ''/lib'',
      bundled = [''ok'' \<mapsto> ''put ok'', ''bad'' \<mapsto> ''fail bad'', ''a/x'' \<mapsto> ''put x''],
      NsSuffix = '':'',
      statNotExist = (\<lambda>p. True),
      readFileUTF8 = (\<lambda>p. Inl (Errorf ''unreadable'')),
      Parse = (\<lambda>n c. Inr c),
      Compile = (\<lambda>newEc tree meta.
        Inr (\<lambda>f w. if tree = ''fail bad'' then (Some (Exception (Errorf ''bad'') []), w)
                    else (None, w))),
      addTraceback = (\<lambda>f. [])\<rparr>"

definition exampleFrame :: Frame where
  "exampleFrame =
     \<lparr>srcMeta = \<lparr>typ = SrcModule, name = ''a/b/c'', path = ''/lib/a/b/c.elv'', code = ''use ../x''\<rparr>,
      local = 0, up = 1, ports = [],
      beginPos = 0, endPos = 8, traceback = [], background = False\<rparr>"

definition exampleWorld :: world where
  "exampleWorld = \<lparr>nsMaps = (\<lambda>r. Map.empty), nsNext = 2, modules = Map.empty\<rparr>"

section \<open>Theorems\<close>

subsection \<open>HasFailure\<close>

text \<open>
  C10. \<open>HasFailure vs\<close> is true exactly when \<open>vs\<close> holds an exitus whose sort is
  not \<open>Ok\<close>. Values that are not an exitus never count: the right-hand side only
  speaks of members of the form \<open>Exitus e\<close>, so a list without any exitus gives
  false whatever else it holds.
\<close>

theorem HasFailure_iff:
  "HasFailure vs = (\<exists>e. Exitus e \<in> set vs \<and> Sort e \<noteq> Ok)"
proof (induction vs)
  case Nil
  show ?case by simp
next
  case (Cons v vs)
  show ?case
  proof (cases v)
    case (Exitus e)
    with Cons show ?thesis by auto
  qed (use Cons in auto)
qed

subsection \<open>Ports\<close>

lemma ClosePorts_append:
  "ClosePorts (ps @ qs) tr =
     (case ClosePorts ps tr of
        (None, tr') \<Rightarrow> ClosePorts qs tr'
      | (Some e, tr') \<Rightarrow> (Some e, tr'))"
  by (induction ps arbitrary: tr) (auto split: prod.splits option.splits)

text \<open>
  C8. \<open>Fork\<close> keeps the file and the channel and unsets both flags. Closing a nil
  port does nothing. Closing a port adds a close of a file only when \<open>CloseFile\<close> is
  set and a close of a channel only when \<open>CloseChan\<close> is set (and without that flag
  it cannot panic); with the flag set, the file of the port is closed, and so is
  its channel when it is still open. Closing a forked port therefore changes
  nothing. \<open>ClosePorts\<close> goes through the list from left to right: closing
  \<open>ps @ qs\<close> is closing \<open>ps\<close> and then, unless that panicked, \<open>qs\<close> from where
  \<open>ps\<close> left off. What it does to each port is \<open>Close\<close>: on the empty list it
  does nothing, and on a list that begins with \<open>port\<close> it closes \<open>port\<close> with
  \<open>Close\<close> and then, unless that panicked, the rest of the list.
\<close>

theorem Port_ownership:
  "Fork (Some p) = Inr \<lparr>File = File p, Chan = Chan p, CloseFile = False, CloseChan = False\<rparr>
   \<and> Close None tr = (None, tr)
   \<and> (\<not> CloseFile p \<longrightarrow>
        (\<forall>fd. FileClose fd \<in> set (snd (Close (Some p) tr)) \<longrightarrow> FileClose fd \<in> set tr))
   \<and> (\<not> CloseChan p \<longrightarrow> fst (Close (Some p) tr) = None
        \<and> (\<forall>c. ChanClose c \<in> set (snd (Close (Some p) tr)) \<longrightarrow> ChanClose c \<in> set tr))
   \<and> (CloseFile p \<longrightarrow> File p = Some fd \<longrightarrow> FileClose fd \<in> set (snd (Close (Some p) tr)))
   \<and> (CloseChan p \<longrightarrow> Chan p = Some c \<longrightarrow> ChanClose c \<notin> set tr \<longrightarrow>
        fst (Close (Some p) tr) = None \<and> ChanClose c \<in> set (snd (Close (Some p) tr)))
   \<and> (Fork (Some p) = Inr q \<longrightarrow> Close (Some q) tr = (None, tr))
   \<and> ClosePorts (ps @ qs) tr =
        (case ClosePorts ps tr of
           (None, tr') \<Rightarrow> ClosePorts qs tr'
         | (Some e, tr') \<Rightarrow> (Some e, tr'))
   \<and> ClosePorts [] tr = (None, tr)
   \<and> ClosePorts (port # ps) tr =
        (case Close port tr of
           (None, tr') \<Rightarrow> ClosePorts ps tr'
         | (Some e, tr') \<Rightarrow> (Some e, tr'))"
proof (intro conjI)
  show "\<not> CloseFile p \<longrightarrow>
      (\<forall>fd. FileClose fd \<in> set (snd (Close (Some p) tr)) \<longrightarrow> FileClose fd \<in> set tr)"
    by (cases "Chan p") (auto simp: Let_def)
  show "\<not> CloseChan p \<longrightarrow> fst (Close (Some p) tr) = None
      \<and> (\<forall>c. ChanClose c \<in> set (snd (Close (Some p) tr)) \<longrightarrow> ChanClose c \<in> set tr)"
    by (cases "File p") (auto simp: Let_def)
  show "CloseFile p \<longrightarrow> File p = Some fd \<longrightarrow> FileClose fd \<in> set (snd (Close (Some p) tr))"
    by (cases "Chan p") (auto simp: Let_def)
  show "CloseChan p \<longrightarrow> Chan p = Some c \<longrightarrow> ChanClose c \<notin> set tr \<longrightarrow>
      fst (Close (Some p) tr) = None \<and> ChanClose c \<in> set (snd (Close (Some p) tr))"
    by (cases "File p") (auto simp: Let_def)
  show "Fork (Some p) = Inr q \<longrightarrow> Close (Some q) tr = (None, tr)"
    by (auto simp: Let_def)
  show "ClosePorts (ps @ qs) tr =
        (case ClosePorts ps tr of
           (None, tr') \<Rightarrow> ClosePorts qs tr'
         | (Some e, tr') \<Rightarrow> (Some e, tr'))"
    by (rule ClosePorts_append)
qed simp_all

text \<open>
  At the port that owns file 1 and channel 2, followed in a list by its fork:
  closing the owner closes both, closing the fork closes nothing, and closing the
  list closes the file and then the channel, once.
\<close>

theorem Port_ownership_witness:
  "FileClose 1 \<in> set (snd (Close (Some \<lparr>File = Some 1, Chan = Some 2, CloseFile = True, CloseChan = True\<rparr>) []))
   \<and> ChanClose 2 \<in> set (snd (Close (Some \<lparr>File = Some 1, Chan = Some 2, CloseFile = True, CloseChan = True\<rparr>) []))
   \<and> Close (Some \<lparr>File = Some 1, Chan = Some 2, CloseFile = False, CloseChan = False\<rparr>) [] = (None, [])
   \<and> ClosePorts ([Some \<lparr>File = Some 1, Chan = Some 2, CloseFile = True, CloseChan = True\<rparr>]
         @ [Some \<lparr>File = Some 1, Chan = Some 2, CloseFile = False, CloseChan = False\<rparr>]) []
       = (None, [FileClose 1, ChanClose 2])"
  using Port_ownership [of "\<lparr>File = Some 1, Chan = Some 2, CloseFile = True, CloseChan = True\<rparr>"
      "[]" 1 2 "\<lparr>File = Some 1, Chan = Some 2, CloseFile = False, CloseChan = False\<rparr>"
      "[Some \<lparr>File = Some 1, Chan = Some 2, CloseFile = True, CloseChan = True\<rparr>]"
      "[Some \<lparr>File = Some 1, Chan = Some 2, CloseFile = False, CloseChan = False\<rparr>]"]
  by (simp add: Let_def)

subsection \<open>The working-directory variable\<close>

text \<open>
  C9. \<open>Set\<close> with a value that is not a string returns the error
  \<open>ErrPathMustBeString\<close> and leaves the state of the operating system as it was,
  whatever \<open>Chdir\<close> would do. \<open>Get\<close> returns what \<open>os.Getwd\<close> reports: the
  directory it gives, as a string value, and its error, thrown, when it fails.
\<close>

theorem PwdVariable_Get_Set:
  "(\<not> is_String v \<longrightarrow> PwdVariable_Set chdir pwd v os = (Some ErrPathMustBeString, os))
   \<and> (getwd os = Inr d \<longrightarrow> PwdVariable_Get getwd os = Inr (String d))
   \<and> (getwd os = Inl err \<longrightarrow> PwdVariable_Get getwd os = Inl (Plain err))"
  by (cases v) (auto simp: PwdVariable_Set_def PwdVariable_Get_def)

text \<open>
  With a state that is the working directory itself and a \<open>Chdir\<close> that would
  move anywhere: setting the boolean true is refused and the directory stays
  \<open>/home\<close>, which \<open>Get\<close> returns.
\<close>

theorem PwdVariable_Get_Set_witness:
  "PwdVariable_Set (\<lambda>path st os. (None, path)) \<lparr>store = ()\<rparr> (Bool True) ''/home''
     = (Some ErrPathMustBeString, ''/home'')
   \<and> PwdVariable_Get Inr ''/home'' = Inr (String ''/home'')"
  using PwdVariable_Get_Set [of "Bool True" "\<lambda>path st os. (None, path)" "\<lparr>store = ()\<rparr>"
      "''/home''" Inr "''/home''" ErrNoLibDir]
  by simp

subsection \<open>and, or\<close>

lemma scanValues_stop:
  "find (\<lambda>v. toBool v = stopAt) ws = Some v \<Longrightarrow> scanValues toBool stopAt l ws = Inl v"
  by (induction ws arbitrary: l) (auto split: if_splits)

lemma scanValues_nostop:
  "\<forall>v\<in>set vs. toBool v \<noteq> stopAt \<Longrightarrow> scanValues toBool stopAt l vs = Inr (last (l # vs))"
  by (induction vs arbitrary: l) auto

lemma andOrLoop_nostop:
  "producedBy ops s = (Inr vs, s') \<Longrightarrow> \<forall>v\<in>set vs. toBool v \<noteq> stopAt \<Longrightarrow>
   andOrLoop toBool send stopAt l ops s = (None, send (last (l # vs)) s')"
proof (induction ops arbitrary: s l vs)
  case Nil
  then show ?case by simp
next
  case (Cons op ops)
  from Cons.prems(1) obtain ws s1 rest where
    op: "op s = (Inr ws, s1)" and rest: "producedBy ops s1 = (Inr rest, s')" and vs: "vs = ws @ rest"
    by (auto split: prod.splits sum.splits)
  from Cons.prems(2) vs have nws: "\<forall>v\<in>set ws. toBool v \<noteq> stopAt"
    and nrest: "\<forall>v\<in>set rest. toBool v \<noteq> stopAt" by auto
  have "andOrLoop toBool send stopAt l (op # ops) s
      = andOrLoop toBool send stopAt (last (l # ws)) ops s1"
    using op scanValues_nostop [OF nws, of l] by simp
  also have "\<dots> = (None, send (last (last (l # ws) # rest)) s')"
    by (rule Cons.IH [OF rest nrest])
  also have "last (last (l # ws) # rest) = last (l # vs)"
    using vs by (cases rest) auto
  finally show ?case .
qed

lemma andOrLoop_stop:
  "producedBy pre s = (Inr vs, s1) \<Longrightarrow> \<forall>v\<in>set vs. toBool v \<noteq> stopAt \<Longrightarrow>
   op s1 = (Inr ws, s2) \<Longrightarrow> find (\<lambda>v. toBool v = stopAt) ws = Some v \<Longrightarrow>
   andOrLoop toBool send stopAt l (pre @ op # post) s = (None, send v s2)"
proof (induction pre arbitrary: s l vs)
  case Nil
  then show ?case by (simp add: scanValues_stop)
next
  case (Cons p pre)
  from Cons.prems(1) obtain us s0 rest where
    p: "p s = (Inr us, s0)" and rest: "producedBy pre s0 = (Inr rest, s1)" and vs: "vs = us @ rest"
    by (auto split: prod.splits sum.splits)
  from Cons.prems(2) vs have nus: "\<forall>v\<in>set us. toBool v \<noteq> stopAt"
    and nrest: "\<forall>v\<in>set rest. toBool v \<noteq> stopAt" by auto
  have "andOrLoop toBool send stopAt l ((p # pre) @ op # post) s
      = andOrLoop toBool send stopAt (last (l # us)) (pre @ op # post) s0"
    using p scanValues_nostop [OF nus, of l] by simp
  also have "\<dots> = (None, send v s2)"
    by (rule Cons.IH [OF rest nrest Cons.prems(3) Cons.prems(4)])
  finally show ?case .
qed

text \<open>
  C5. \<open>and\<close> is \<open>compileAndOr\<close> with the initial value true, stopping at false,
  and \<open>or\<close> the reverse. Stopping: when the arguments \<open>pre\<close> produce no value of
  the stopping truth and the next argument \<open>op\<close> produces values of which \<open>v\<close> is
  the first of that truth, the form completes, what it sends is \<open>v\<close>, and it
  leaves the state that \<open>op\<close> left, whatever the later arguments \<open>post\<close> are:
  they are not executed. Not stopping: when all arguments produce no value of
  the stopping truth, the form sends the last value produced, and the initial
  boolean when none was produced, so true for \<open>and\<close> and false for \<open>or\<close> on an
  empty list of arguments. In particular \<open>and\<close> of false and arguments that
  would throw completes with the boolean false, and so does \<open>or\<close> of true with
  true.
\<close>

theorem and_or_short_circuit:
  "(producedBy pre s = (Inr vs, s1) \<longrightarrow> (\<forall>v\<in>set vs. toBool v \<noteq> stopAt) \<longrightarrow>
      op s1 = (Inr ws, s2) \<longrightarrow> find (\<lambda>v. toBool v = stopAt) ws = Some v \<longrightarrow>
      compileAndOr toBool send init stopAt (pre @ op # post) s = (None, send v s2))
   \<and> (producedBy ops s = (Inr us, s') \<longrightarrow> (\<forall>v\<in>set us. toBool v \<noteq> stopAt) \<longrightarrow>
      compileAndOr toBool send init stopAt ops s
        = (None, send (if us = [] then Bool init else last us) s'))
   \<and> compileAnd toBool send argOps s = compileAndOr toBool send True False argOps s
   \<and> compileOr toBool send argOps s = compileAndOr toBool send False True argOps s
   \<and> compileAnd toBool send [] s = (None, send (Bool True) s)
   \<and> compileOr toBool send [] s = (None, send (Bool False) s)
   \<and> (toBool (Bool False) = False \<longrightarrow>
      compileAnd toBool send ((\<lambda>s. (Inr [Bool False], s)) # post) s = (None, send (Bool False) s))
   \<and> (toBool (Bool True) = True \<longrightarrow>
      compileOr toBool send ((\<lambda>s. (Inr [Bool True], s)) # post) s = (None, send (Bool True) s))"
proof (intro conjI impI)
  assume "producedBy pre s = (Inr vs, s1)" "\<forall>v\<in>set vs. toBool v \<noteq> stopAt"
    "op s1 = (Inr ws, s2)" "find (\<lambda>v. toBool v = stopAt) ws = Some v"
  then show "compileAndOr toBool send init stopAt (pre @ op # post) s = (None, send v s2)"
    unfolding compileAndOr_def by (rule andOrLoop_stop)
next
  assume "producedBy ops s = (Inr us, s')" "\<forall>v\<in>set us. toBool v \<noteq> stopAt"
  then have "andOrLoop toBool send stopAt (Bool init) ops s = (None, send (last (Bool init # us)) s')"
    by (rule andOrLoop_nostop)
  then show "compileAndOr toBool send init stopAt ops s
        = (None, send (if us = [] then Bool init else last us) s')"
    by (simp add: compileAndOr_def)
qed (simp_all add: compileAnd_def compileOr_def compileAndOr_def)

text \<open>
  With the output channel as the state, the list of the values sent:
  \<open>and $true $false (fail nope)\<close> sends false and does not fail;
  \<open>and $true (put a b)\<close> sends \<open>b\<close>; \<open>or $true (fail oops)\<close> sends true.
\<close>

theorem and_or_short_circuit_witness:
  "compileAndOr ToBool (\<lambda>v out. out @ [v]) True False
      ([\<lambda>s. (Inr [Bool True], s)] @ (\<lambda>s. (Inr [Bool False], s))
         # [\<lambda>s. (Inl (Plain (Errorf ''nope'')), s)]) []
     = (None, [Bool False])
   \<and> compileAndOr ToBool (\<lambda>v out. out @ [v]) True False
      [\<lambda>s. (Inr [Bool True], s), \<lambda>s. (Inr [String ''a'', String ''b''], s)] []
     = (None, [String ''b''])
   \<and> compileOr ToBool (\<lambda>v out. out @ [v])
      [\<lambda>s. (Inr [Bool True], s), \<lambda>s. (Inl (Plain (Errorf ''nope'')), s)] []
     = (None, [Bool True])"
  using and_or_short_circuit [where pre = "[\<lambda>s. (Inr [Bool True], s)]" and s = "[]"
      and vs = "[Bool True]" and ?s1.0 = "[]" and toBool = ToBool and stopAt = False
      and op = "\<lambda>s. (Inr [Bool False], s)" and ws = "[Bool False]" and ?s2.0 = "[]"
      and v = "Bool False" and send = "\<lambda>v out. out @ [v]" and init = True
      and post = "[\<lambda>s. (Inl (Plain (Errorf ''nope'')), s)]"
      and ops = "[\<lambda>s. (Inr [Bool True], s), \<lambda>s. (Inr [String ''a'', String ''b''], s)]"
      and us = "[Bool True, String ''a'', String ''b'']" and s' = "[]" and argOps = "[]"]
  by (simp add: compileOr_def compileAndOr_def)

subsection \<open>while\<close>

text \<open>
  C1. The code does not do what the claim says of \<open>Break\<close>: the branch of the
  loop for a body that raised \<open>Break\<close> continues the loop, as the branch for
  \<open>Continue\<close> does. Take a state that counts the executions of the body, a
  body that always raises \<open>Break\<close>, and for \<open>allTrue\<close> that every value is
  true under \<open>ToBool\<close>. With a condition that holds while the count is below
  two, the loop executes the body twice before it completes, where the claim
  has it leave after the first execution; and with a condition that always
  holds, the loop does not return, however many iterations it is given.
\<close>

theorem while_Break_restarts:
  "whileLoop 3 (list_all ToBool) (\<lambda>s. (Inr [Bool (s < 2)], s))
      (\<lambda>s. (Some (Exception Break []), Suc s)) (0::nat) = Some (None, 2)
   \<and> whileLoop n (list_all ToBool) (\<lambda>s. (Inr [Bool True], s))
      (\<lambda>s. (Some (Exception Break []), Suc s)) (0::nat) = None"
proof
  show "whileLoop 3 (list_all ToBool) (\<lambda>s. (Inr [Bool (s < 2)], s))
      (\<lambda>s. (Some (Exception Break []), Suc s)) (0::nat) = Some (None, 2)"
    by (simp add: numeral_3_eq_3)
  have "whileLoop n (list_all ToBool) (\<lambda>s. (Inr [Bool True], s))
      (\<lambda>s. (Some (Exception Break []), Suc s)) s = None" for s :: nat
    by (induction n arbitrary: s) auto
  then show "whileLoop n (list_all ToBool) (\<lambda>s. (Inr [Bool True], s))
      (\<lambda>s. (Some (Exception Break []), Suc s)) (0::nat) = None" .
qed

subsection \<open>try\<close>

lemma compileTry_calls:
  "execlambdaOp bodyOp s = (Inr (Some b), sa) \<Longrightarrow>
   execMustOne exceptVarOp sa = (Inr exceptVar, sb) \<Longrightarrow>
   execlambdaOp exceptOp sb = (Inr except, sc) \<Longrightarrow>
   execlambdaOp elseOp sc = (Inr elseBody, sd) \<Longrightarrow>
   execlambdaOp finallyOp sd = (Inr finally, s0) \<Longrightarrow>
   compileTry PCall Call Set bodyOp exceptVarOp exceptOp elseOp finallyOp s =
     (case tryCalls (PCall ''try body'' b) (map_option Set exceptVar)
             (map_option (PCall ''try except'') except)
             (map_option (PCall ''try else'') elseBody)
             (map_option (Call ''try finally'') finally) s0 of
        (r, s') \<Rightarrow> (map_option Throw r, s'))"
  by (simp add: compileTry_def)

lemma tryCalls_cases:
  "(body s = (None, s1) \<longrightarrow> elseBody = None \<longrightarrow>
      tryCalls body exceptVar except elseBody (Some fin) s
        = (case fin s1 of (Some t, s3) \<Rightarrow> (Some t, s3) | (None, s3) \<Rightarrow> (None, s3)))
   \<and> (body s = (None, s1) \<longrightarrow> elseBody = Some elseCall \<longrightarrow> elseCall s1 = (err', s2) \<longrightarrow>
      tryCalls body exceptVar except elseBody (Some fin) s
        = (case fin s2 of (Some t, s3) \<Rightarrow> (Some t, s3) | (None, s3) \<Rightarrow> (map_option Exc err', s3)))
   \<and> (body s = (Some exc, s1) \<longrightarrow> except = None \<longrightarrow>
      tryCalls body exceptVar except elseBody (Some fin) s
        = (case fin s1 of (Some t, s3) \<Rightarrow> (Some t, s3) | (None, s3) \<Rightarrow> (Some (Exc exc), s3)))
   \<and> (body s = (Some exc, s1) \<longrightarrow> except = Some exceptCall \<longrightarrow> exceptVar = None \<longrightarrow>
      exceptCall s1 = (err', s2) \<longrightarrow>
      tryCalls body exceptVar except elseBody (Some fin) s
        = (case fin s2 of (Some t, s3) \<Rightarrow> (Some t, s3) | (None, s3) \<Rightarrow> (map_option Exc err', s3)))
   \<and> (body s = (Some exc, s1) \<longrightarrow> except = Some exceptCall \<longrightarrow> exceptVar = Some setVar \<longrightarrow>
      setVar exc s1 = (None, s1') \<longrightarrow> exceptCall s1' = (err', s2) \<longrightarrow>
      tryCalls body exceptVar except elseBody (Some fin) s
        = (case fin s2 of (Some t, s3) \<Rightarrow> (Some t, s3) | (None, s3) \<Rightarrow> (map_option Exc err', s3)))
   \<and> (body s = (Some exc, s1) \<longrightarrow> except = Some exceptCall \<longrightarrow> exceptVar = Some setVar \<longrightarrow>
      setVar exc s1 = (Some e, s1') \<longrightarrow>
      tryCalls body exceptVar except elseBody (Some fin) s = (Some (Plain e), s1'))"
  by (cases err') (auto simp: tryCalls_def split: prod.splits option.splits)

text \<open>
  C4, as the code has it. Take a try form with a finally clause whose five
  operands are evaluated without failure, to the body \<open>b\<close>, the variable
  \<open>exceptVar\<close> and the lambdas \<open>except\<close>, \<open>elseBody\<close> and \<open>fin\<close>, leaving the state
  \<open>s0\<close>. Then the finally body is called after the body and after the else or
  except clause that applies, on the state they left (\<open>s1\<close> or \<open>s2\<close>), whether
  or not they raised. When the finally body completes, the exception that
  remains is thrown: that of the else or except clause (\<open>err'\<close>, possibly none),
  or that of the body when there is no except clause. When the finally body
  throws, the form throws what it threw, not the exception that remained. When
  setting the variable of the except clause fails, the form throws that error
  at once: neither the except body nor the finally body is called. And when
  the evaluation of an operand fails, the form fails with that failure in the
  state that the operand left: neither the body nor the finally body is
  called. The evaluation of an operand fails when its operation throws, and
  that of the variable of the except clause also when its operation does not
  give exactly one variable; the evaluation of an absent operand gives nil, and
  otherwise the lambda or the one variable that the operation gives.
\<close>

theorem try_finally:
  "(execlambdaOp bodyOp s = (Inr (Some b), sa) \<longrightarrow>
    execMustOne exceptVarOp sa = (Inr exceptVar, sb) \<longrightarrow>
    execlambdaOp exceptOp sb = (Inr except, sc) \<longrightarrow>
    execlambdaOp elseOp sc = (Inr elseBody, sd) \<longrightarrow>
    execlambdaOp finallyOp sd = (Inr (Some fin), s0) \<longrightarrow>
      (PCall ''try body'' b s0 = (None, s1) \<longrightarrow> elseBody = None \<longrightarrow>
         compileTry PCall Call Set bodyOp exceptVarOp exceptOp elseOp finallyOp s
           = (case Call ''try finally'' fin s1 of
                (Some t, s3) \<Rightarrow> (Some (Throw t), s3)
              | (None, s3) \<Rightarrow> (None, s3)))
    \<and> (PCall ''try body'' b s0 = (None, s1) \<longrightarrow> elseBody = Some el \<longrightarrow>
         PCall ''try else'' el s1 = (err', s2) \<longrightarrow>
         compileTry PCall Call Set bodyOp exceptVarOp exceptOp elseOp finallyOp s
           = (case Call ''try finally'' fin s2 of
                (Some t, s3) \<Rightarrow> (Some (Throw t), s3)
              | (None, s3) \<Rightarrow> (map_option (\<lambda>x. Throw (Exc x)) err', s3)))
    \<and> (PCall ''try body'' b s0 = (Some exc, s1) \<longrightarrow> except = None \<longrightarrow>
         compileTry PCall Call Set bodyOp exceptVarOp exceptOp elseOp finallyOp s
           = (case Call ''try finally'' fin s1 of
                (Some t, s3) \<Rightarrow> (Some (Throw t), s3)
              | (None, s3) \<Rightarrow> (Some (Throw (Exc exc)), s3)))
    \<and> (PCall ''try body'' b s0 = (Some exc, s1) \<longrightarrow> except = Some ex \<longrightarrow> exceptVar = None \<longrightarrow>
         PCall ''try except'' ex s1 = (err', s2) \<longrightarrow>
         compileTry PCall Call Set bodyOp exceptVarOp exceptOp elseOp finallyOp s
           = (case Call ''try finally'' fin s2 of
                (Some t, s3) \<Rightarrow> (Some (Throw t), s3)
              | (None, s3) \<Rightarrow> (map_option (\<lambda>x. Throw (Exc x)) err', s3)))
    \<and> (PCall ''try body'' b s0 = (Some exc, s1) \<longrightarrow> except = Some ex \<longrightarrow>
         exceptVar = Some var \<longrightarrow> Set var exc s1 = (None, s1') \<longrightarrow>
         PCall ''try except'' ex s1' = (err', s2) \<longrightarrow>
         compileTry PCall Call Set bodyOp exceptVarOp exceptOp elseOp finallyOp s
           = (case Call ''try finally'' fin s2 of
                (Some t, s3) \<Rightarrow> (Some (Throw t), s3)
              | (None, s3) \<Rightarrow> (map_option (\<lambda>x. Throw (Exc x)) err', s3)))
    \<and> (PCall ''try body'' b s0 = (Some exc, s1) \<longrightarrow> except = Some ex \<longrightarrow>
         exceptVar = Some var \<longrightarrow> Set var exc s1 = (Some e, s1') \<longrightarrow>
         compileTry PCall Call Set bodyOp exceptVarOp exceptOp elseOp finallyOp s
           = (Some (Throw (Plain e)), s1')))
   \<and> (execlambdaOp bodyOp s = (Inl f, sa) \<longrightarrow>
        compileTry PCall Call Set bodyOp exceptVarOp exceptOp elseOp finallyOp s = (Some f, sa))
   \<and> (execlambdaOp bodyOp s = (Inr body, sa) \<longrightarrow>
        execMustOne exceptVarOp sa = (Inl f, sb) \<longrightarrow>
        compileTry PCall Call Set bodyOp exceptVarOp exceptOp elseOp finallyOp s = (Some f, sb))
   \<and> (execlambdaOp bodyOp s = (Inr body, sa) \<longrightarrow>
        execMustOne exceptVarOp sa = (Inr exceptVar, sb) \<longrightarrow>
        execlambdaOp exceptOp sb = (Inl f, sc) \<longrightarrow>
        compileTry PCall Call Set bodyOp exceptVarOp exceptOp elseOp finallyOp s = (Some f, sc))
   \<and> (execlambdaOp bodyOp s = (Inr body, sa) \<longrightarrow>
        execMustOne exceptVarOp sa = (Inr exceptVar, sb) \<longrightarrow>
        execlambdaOp exceptOp sb = (Inr except, sc) \<longrightarrow>
        execlambdaOp elseOp sc = (Inl f, sd) \<longrightarrow>
        compileTry PCall Call Set bodyOp exceptVarOp exceptOp elseOp finallyOp s = (Some f, sd))
   \<and> (execlambdaOp bodyOp s = (Inr body, sa) \<longrightarrow>
        execMustOne exceptVarOp sa = (Inr exceptVar, sb) \<longrightarrow>
        execlambdaOp exceptOp sb = (Inr except, sc) \<longrightarrow>
        execlambdaOp elseOp sc = (Inr elseBody, sd) \<longrightarrow>
        execlambdaOp finallyOp sd = (Inl f, s0) \<longrightarrow>
        compileTry PCall Call Set bodyOp exceptVarOp exceptOp elseOp finallyOp s = (Some f, s0))
   \<and> (exceptVarOp = Some exec \<longrightarrow> exec sa = (Inr variables, sb) \<longrightarrow> length variables \<noteq> 1 \<longrightarrow>
        execMustOne exceptVarOp sa = (Inl (Throw (Plain (Errorf ''should be one variable''))), sb))
   \<and> (exceptVarOp = Some exec \<longrightarrow> exec sa = (Inl t, sb) \<longrightarrow>
        execMustOne exceptVarOp sa = (Inl (Throw t), sb))
   \<and> (exceptVarOp = Some exec \<longrightarrow> exec sa = (Inr [variable], sb) \<longrightarrow>
        execMustOne exceptVarOp sa = (Inr (Some variable), sb))
   \<and> (exceptVarOp = None \<longrightarrow> execMustOne exceptVarOp sa = (Inr None, sa))
   \<and> (lambdaOperand = Some lexec \<longrightarrow> lexec s = (Inl t, sa) \<longrightarrow>
        execlambdaOp lambdaOperand s = (Inl (Throw t), sa))
   \<and> (lambdaOperand = Some lexec \<longrightarrow> lexec s = (Inr (Lambda c # vs), sa) \<longrightarrow>
        execlambdaOp lambdaOperand s = (Inr (Some c), sa))
   \<and> (lambdaOperand = None \<longrightarrow> execlambdaOp lambdaOperand s = (Inr None, s))"
proof (intro conjI impI)
  assume ops: "execlambdaOp bodyOp s = (Inr (Some b), sa)"
    "execMustOne exceptVarOp sa = (Inr exceptVar, sb)"
    "execlambdaOp exceptOp sb = (Inr except, sc)"
    "execlambdaOp elseOp sc = (Inr elseBody, sd)"
    "execlambdaOp finallyOp sd = (Inr (Some fin), s0)"
  note calls = compileTry_calls [OF ops, of PCall Call Set]
  note cases = tryCalls_cases [of "PCall ''try body'' b" s0 _ "map_option (PCall ''try else'') elseBody"
      "map_option Set exceptVar" "map_option (PCall ''try except'') except" "Call ''try finally'' fin"]
  { assume "PCall ''try body'' b s0 = (None, s1)" "elseBody = None"
    then show "compileTry PCall Call Set bodyOp exceptVarOp exceptOp elseOp finallyOp s
           = (case Call ''try finally'' fin s1 of
                (Some t, s3) \<Rightarrow> (Some (Throw t), s3)
              | (None, s3) \<Rightarrow> (None, s3))"
      using cases [THEN conjunct1, of s1]
      by (simp add: calls split: prod.splits option.splits) }
  { assume "PCall ''try body'' b s0 = (None, s1)" "elseBody = Some el"
      "PCall ''try else'' el s1 = (err', s2)"
    then show "compileTry PCall Call Set bodyOp exceptVarOp exceptOp elseOp finallyOp s
           = (case Call ''try finally'' fin s2 of
                (Some t, s3) \<Rightarrow> (Some (Throw t), s3)
              | (None, s3) \<Rightarrow> (map_option (\<lambda>x. Throw (Exc x)) err', s3))"
      using cases [THEN conjunct2, THEN conjunct1, of s1 "PCall ''try else'' el" err' s2]
      by (simp add: calls option.map_comp comp_def split: prod.splits option.splits) }
  { assume "PCall ''try body'' b s0 = (Some exc, s1)" "except = None"
    then show "compileTry PCall Call Set bodyOp exceptVarOp exceptOp elseOp finallyOp s
           = (case Call ''try finally'' fin s1 of
                (Some t, s3) \<Rightarrow> (Some (Throw t), s3)
              | (None, s3) \<Rightarrow> (Some (Throw (Exc exc)), s3))"
      using cases [THEN conjunct2, THEN conjunct2, THEN conjunct1, of exc s1]
      by (simp add: calls split: prod.splits option.splits) }
  { assume "PCall ''try body'' b s0 = (Some exc, s1)" "except = Some ex" "exceptVar = None"
      "PCall ''try except'' ex s1 = (err', s2)"
    then show "compileTry PCall Call Set bodyOp exceptVarOp exceptOp elseOp finallyOp s
           = (case Call ''try finally'' fin s2 of
                (Some t, s3) \<Rightarrow> (Some (Throw t), s3)
              | (None, s3) \<Rightarrow> (map_option (\<lambda>x. Throw (Exc x)) err', s3))"
      using cases [THEN conjunct2, THEN conjunct2, THEN conjunct2, THEN conjunct1,
          of exc s1 "PCall ''try except'' ex" err' s2]
      by (simp add: calls option.map_comp comp_def split: prod.splits option.splits) }
  { assume "PCall ''try body'' b s0 = (Some exc, s1)" "except = Some ex" "exceptVar = Some var"
      "Set var exc s1 = (None, s1')" "PCall ''try except'' ex s1' = (err', s2)"
    then show "compileTry PCall Call Set bodyOp exceptVarOp exceptOp elseOp finallyOp s
           = (case Call ''try finally'' fin s2 of
                (Some t, s3) \<Rightarrow> (Some (Throw t), s3)
              | (None, s3) \<Rightarrow> (map_option (\<lambda>x. Throw (Exc x)) err', s3))"
      using cases [THEN conjunct2, THEN conjunct2, THEN conjunct2, THEN conjunct2, THEN conjunct1,
          of exc s1 "PCall ''try except'' ex" "Set var" s1' err' s2]
      by (simp add: calls option.map_comp comp_def split: prod.splits option.splits) }
  { assume "PCall ''try body'' b s0 = (Some exc, s1)" "except = Some ex" "exceptVar = Some var"
      "Set var exc s1 = (Some e, s1')"
    then show "compileTry PCall Call Set bodyOp exceptVarOp exceptOp elseOp finallyOp s
           = (Some (Throw (Plain e)), s1')"
      using cases [THEN conjunct2, THEN conjunct2, THEN conjunct2, THEN conjunct2, THEN conjunct2,
          of exc s1 "PCall ''try except'' ex" "Set var" e s1']
      by (simp add: calls) }
next
  assume "exceptVarOp = Some exec" "exec sa = (Inr variables, sb)" "length variables \<noteq> 1"
  then show "execMustOne exceptVarOp sa
      = (Inl (Throw (Plain (Errorf ''should be one variable''))), sb)"
    by (cases variables; cases "tl variables") (auto simp: execMustOne_def)
next
  assume "exceptVarOp = Some exec" "exec sa = (Inl t, sb)"
  then show "execMustOne exceptVarOp sa = (Inl (Throw t), sb)"
    by (simp add: execMustOne_def)
next
  assume "exceptVarOp = Some exec" "exec sa = (Inr [variable], sb)"
  then show "execMustOne exceptVarOp sa = (Inr (Some variable), sb)"
    by (simp add: execMustOne_def)
next
  assume "exceptVarOp = None"
  then show "execMustOne exceptVarOp sa = (Inr None, sa)"
    by (simp add: execMustOne_def)
next
  assume "lambdaOperand = Some lexec" "lexec s = (Inl t, sa)"
  then show "execlambdaOp lambdaOperand s = (Inl (Throw t), sa)"
    by (simp add: execlambdaOp_def)
next
  assume "lambdaOperand = Some lexec" "lexec s = (Inr (Lambda c # vs), sa)"
  then show "execlambdaOp lambdaOperand s = (Inr (Some c), sa)"
    by (simp add: execlambdaOp_def)
next
  assume "lambdaOperand = None"
  then show "execlambdaOp lambdaOperand s = (Inr None, s)"
    by (simp add: execlambdaOp_def)
qed (simp_all add: compileTry_def)

text \<open>
  In the example: a body that raises, caught by an except clause whose variable
  accepts the exception and whose body raises in its turn, then a finally body
  that completes. The calls are made in this order and the exception of the
  except body is thrown. And with an operation that gives two variables for
  the except clause, the form throws before any call.
\<close>

theorem try_finally_witness:
  "compileTry examplePCall exampleCall exampleSet
      (lambdaOp ''fail'') (Some (\<lambda>s. (Inr [True], s))) (lambdaOp ''fail again'') None
      (lambdaOp ''ok'') []
     = (Some (Throw (Exc (Exception (Errorf ''again'') []))),
        [''try body'', ''set'', ''try except'', ''try finally''])
   \<and> compileTry examplePCall exampleCall exampleSet
      (lambdaOp ''ok'') (Some (\<lambda>s. (Inr [True, True], s))) (lambdaOp ''ok'') None
      (lambdaOp ''ok'') []
     = (Some (Throw (Plain (Errorf ''should be one variable''))), [])"
proof -
  have lam: "execlambdaOp (lambdaOp c) s = (Inr (Some c), s)" for c s
    by (simp add: execlambdaOp_def lambdaOp_def)
  have none: "execlambdaOp None s = (Inr None, s)" for s :: "string list"
    by (simp add: execlambdaOp_def)
  have one: "execMustOne (Some (\<lambda>s. (Inr [True], s))) s = (Inr (Some True), s)" for s :: "string list"
    by (simp add: execMustOne_def)
  have body: "examplePCall ''try body'' ''fail'' [] = (Some (Exception (Errorf ''boom'') []), [''try body''])"
    by (simp add: examplePCall_def)
  have setv: "exampleSet True (Exception (Errorf ''boom'') []) [''try body'']
      = (None, [''try body'', ''set''])"
    by (simp add: exampleSet_def)
  have exc: "examplePCall ''try except'' ''fail again'' [''try body'', ''set'']
      = (Some (Exception (Errorf ''again'') []), [''try body'', ''set'', ''try except''])"
    by (simp add: examplePCall_def)
  note calls = try_finally [where PCall = examplePCall and Call = exampleCall and Set = exampleSet,
      THEN conjunct1, rule_format, OF lam one lam none lam]
  have first: "compileTry examplePCall exampleCall exampleSet
      (lambdaOp ''fail'') (Some (\<lambda>s. (Inr [True], s))) (lambdaOp ''fail again'') None
      (lambdaOp ''ok'') []
     = (Some (Throw (Exc (Exception (Errorf ''again'') []))),
        [''try body'', ''set'', ''try except'', ''try finally''])"
    using calls [THEN conjunct2, THEN conjunct2, THEN conjunct2, THEN conjunct2, THEN conjunct1,
        rule_format, OF body refl refl setv exc]
    by (simp add: exampleCall_def)
  have two: "execMustOne (Some (\<lambda>s. (Inr [True, True], s))) ([] :: string list)
      = (Inl (Throw (Plain (Errorf ''should be one variable''))), [])"
    by (simp add: execMustOne_def)
  have second: "compileTry examplePCall exampleCall exampleSet
      (lambdaOp ''ok'') (Some (\<lambda>s. (Inr [True, True], s))) (lambdaOp ''ok'') None
      (lambdaOp ''ok'') []
     = (Some (Throw (Plain (Errorf ''should be one variable''))), [])"
    by (rule try_finally [where PCall = examplePCall and Call = exampleCall and Set = exampleSet,
          THEN conjunct2, THEN conjunct2, THEN conjunct1, rule_format, OF lam two])
  from first second show ?thesis by simp
qed

text \<open>
  The claim as stated fails twice. A try form whose body raises \<open>boom\<close>, with no
  except clause and a finally body that throws \<open>late\<close>, throws \<open>late\<close>: the
  exception that remained is not thrown again. And a try form whose body
  raises, with an except clause whose variable refuses the exception, throws
  the error of the variable after the body and the attempt to set alone: the
  finally body is not executed.
\<close>

theorem try_finally_counterexample:
  "compileTry examplePCall exampleCall exampleSet
      (lambdaOp ''fail'') None None None (lambdaOp ''fail late'') []
     = (Some (Throw (Plain (Errorf ''late''))), [''try body'', ''try finally''])
   \<and> compileTry examplePCall exampleCall exampleSet
      (lambdaOp ''fail'') (Some (\<lambda>s. (Inr [False], s))) (lambdaOp ''ok'') None (lambdaOp ''ok'') []
     = (Some (Throw (Plain ErrPathMustBeString)), [''try body'', ''set''])"
  by (simp add: compileTry_def tryCalls_def execlambdaOp_def execMustOne_def lambdaOp_def
      examplePCall_def exampleCall_def exampleSet_def)

subsection \<open>Forks and the local namespace\<close>

lemma copyPorts_Inr:
  "copyPorts ps = Inr qs \<Longrightarrow>
   list_all2 (\<lambda>p q. \<exists>x. p = Some x
       \<and> q = Some \<lparr>portF = portF x, portCh = portCh x, closeF = False, closeCh = False\<rparr>) ps qs"
proof (induction ps arbitrary: qs)
  case Nil
  then show ?case by simp
next
  case (Cons p ps)
  show ?case
  proof (cases p)
    case None
    with Cons.prems show ?thesis by simp
  next
    case (Some x)
    with Cons.prems obtain rest where
      rest: "copyPorts ps = Inr rest"
      and qs: "qs = Some \<lparr>portF = portF x, portCh = portCh x, closeF = False, closeCh = False\<rparr> # rest"
      by (auto split: sum.splits)
    from Cons.IH [OF rest] Some qs show ?thesis by simp
  qed
qed

text \<open>
  C2, as the code has it. \<open>copy\<close> copies the reference of the local namespace,
  not its contents: the fork \<open>G\<close> and its parent \<open>F\<close> have the same local
  namespace. Deleting a name through the fork deletes it from the local
  namespace of the parent, adding one adds it there, and every other namespace
  stays as it was. The fork also has the evaler, the name, the text and the up
  namespace of the parent, and the new label. Only the ports are copied: the
  fork has one new port for each port of the parent, with the same file and
  channel and both close flags false.
\<close>

theorem copy_shares_local:
  "copy F newContext = Inr G \<Longrightarrow>
     evalCtx.local G = evalCtx.local F
   \<and> newDelLocalVariableOp n G st (evalCtx.local F) = (st (evalCtx.local F))(n := None)
   \<and> mapAssign (evalCtx.local G) n v st (evalCtx.local F) = (st (evalCtx.local F))(n \<mapsto> v)
   \<and> (r \<noteq> evalCtx.local F \<longrightarrow>
        newDelLocalVariableOp n G st r = st r \<and> mapAssign (evalCtx.local G) n v st r = st r)
   \<and> evalCtx.up G = evalCtx.up F
   \<and> evalCtx.Evaler G = evalCtx.Evaler F
   \<and> evalCtx.name G = evalCtx.name F
   \<and> srcText G = srcText F
   \<and> ctxLabel G = newContext
   \<and> copyPorts (evalCtx.ports F) = Inr (evalCtx.ports G)
   \<and> list_all2 (\<lambda>p q. \<exists>x. p = Some x
         \<and> q = Some \<lparr>portF = portF x, portCh = portCh x, closeF = False, closeCh = False\<rparr>)
        (evalCtx.ports F) (evalCtx.ports G)"
proof -
  assume c: "copy F newContext = Inr G"
  then obtain newPorts where
    ports: "copyPorts (evalCtx.ports F) = Inr newPorts"
    and G: "G = \<lparr>evalCtx.Evaler = evalCtx.Evaler F, name = evalCtx.name F, srcText = srcText F,
               ctxLabel = newContext, local = evalCtx.local F, up = evalCtx.up F,
               ports = newPorts\<rparr>"
    by (auto simp: copy_def split: sum.splits)
  have rel: "list_all2 (\<lambda>p q. \<exists>x. p = Some x
         \<and> q = Some \<lparr>portF = portF x, portCh = portCh x, closeF = False, closeCh = False\<rparr>)
        (evalCtx.ports F) newPorts"
    by (rule copyPorts_Inr [OF ports])
  show ?thesis
    using ports rel
    by (simp add: G newDelLocalVariableOp_def mapAssign_def mapDelete_def)
qed

text \<open>
  The fork of the example context: deleting \<open>x\<close> through it empties the local
  namespace of the parent, adding \<open>z\<close> through it extends that namespace.
\<close>

theorem copy_shares_local_witness:
  "copy exampleCtx ''fork'' = Inr exampleFork
   \<and> newDelLocalVariableOp ''x'' exampleFork exampleStore (evalCtx.local exampleCtx) = Map.empty
   \<and> mapAssign (evalCtx.local exampleFork) ''z'' (EnvVariable ''z'') exampleStore (evalCtx.local exampleCtx)
       = [''x'' \<mapsto> InternalVariable (String ''1''), ''z'' \<mapsto> EnvVariable ''z'']"
proof -
  have c: "copy exampleCtx ''fork'' = Inr exampleFork"
    by (simp add: copy_def exampleCtx_def exampleFork_def)
  show ?thesis
    using c copy_shares_local [OF c, of "''x''" exampleStore]
      copy_shares_local [OF c, of "''z''" exampleStore "EnvVariable ''z''"]
    by (simp add: exampleCtx_def exampleFork_def exampleStore_def
        newDelLocalVariableOp_def mapAssign_def mapDelete_def)
qed

text \<open>
  The claim as stated fails: in the example, the parent sees \<open>x\<close> in its local
  namespace before the fork deletes it and not after, and does not see \<open>z\<close>
  before the fork adds it and sees it after.
\<close>

theorem fork_isolation_counterexample:
  "copy exampleCtx ''fork'' = Inr exampleFork
   \<and> exampleStore (evalCtx.local exampleCtx) ''x'' = Some (InternalVariable (String ''1''))
   \<and> newDelLocalVariableOp ''x'' exampleFork exampleStore (evalCtx.local exampleCtx) ''x'' = None
   \<and> exampleStore (evalCtx.local exampleCtx) ''z'' = None
   \<and> mapAssign (evalCtx.local exampleFork) ''z'' (EnvVariable ''z'') exampleStore
        (evalCtx.local exampleCtx) ''z'' = Some (EnvVariable ''z'')"
  by (simp add: copy_def exampleCtx_def exampleFork_def exampleStore_def
      newDelLocalVariableOp_def mapAssign_def mapDelete_def)

subsection \<open>Resolving a variable\<close>




subsection \<open>Loading a module\<close>

text \<open>
  C3. A module whose resolved path is in the cache is returned as it is cached,
  and the world stays as it was: nothing is executed. For a module that is not
  in the cache and whose source is found, parsed and compiled to the operation
  \<open>op\<close>: the world \<open>w2\<close> in which \<open>op\<close> is executed has the new namespace of the
  module in the cache already, so that loading the same module from there, as a
  module that uses itself does, returns that namespace at once; when \<open>op\<close>
  completes the namespace is returned, and when it raises the exception is
  thrown from a world whose cache has no entry of the module. An error before
  the execution (no library directory, no source, a parse or compile error)
  leaves the cache as it was.
\<close>

theorem loadModule_cache:
  "(modules w n = Some ns \<longrightarrow> loadModule env ec n w = (Inr ns, w))
   \<and> (modules w n = None \<longrightarrow> libDir env \<noteq> [] \<longrightarrow> moduleSource env n = Inr (p, c) \<longrightarrow>
        Parse env n c = Inr tree \<longrightarrow>
        newEc = moduleFrame env ec (NewModuleSource n p c) (nsNext w) (Suc (nsNext w)) \<longrightarrow>
        Compile env newEc tree (NewModuleSource n p c) = Inr op \<longrightarrow>
        w2 = (snd (newNs (snd (newNs w))))\<lparr>modules := (modules w)(n \<mapsto> nsNext w)\<rparr> \<longrightarrow>
          modules w2 n = Some (nsNext w)
        \<and> loadModule env ec' n w2 = (Inr (nsNext w), w2)
        \<and> (op newEc w2 = (None, w3) \<longrightarrow> loadModule env ec n w = (Inr (nsNext w), w3))
        \<and> (op newEc w2 = (Some exc, w3) \<longrightarrow>
             loadModule env ec n w = (Inl (Exc exc), w3\<lparr>modules := (modules w3)(n := None)\<rparr>)
             \<and> modules (snd (loadModule env ec n w)) n = None))
   \<and> (fst (loadModule env ec n w) = Inl (Plain e) \<longrightarrow>
        modules (snd (loadModule env ec n w)) = modules w)"
proof (intro conjI impI)
  assume "modules w n = Some ns"
  then show "loadModule env ec n w = (Inr ns, w)" by (simp add: loadModule_def)
next
  assume a: "modules w n = None" "libDir env \<noteq> []" "moduleSource env n = Inr (p, c)"
    "Parse env n c = Inr tree"
    "newEc = moduleFrame env ec (NewModuleSource n p c) (nsNext w) (Suc (nsNext w))"
    "Compile env newEc tree (NewModuleSource n p c) = Inr op"
    "w2 = (snd (newNs (snd (newNs w))))\<lparr>modules := (modules w)(n \<mapsto> nsNext w)\<rparr>"
  show m: "modules w2 n = Some (nsNext w)" using a(7) by simp
  show "loadModule env ec' n w2 = (Inr (nsNext w), w2)" using m by (simp add: loadModule_def)
  have l: "loadModule env ec n w =
      (case op newEc w2 of
         (Some exc, w') \<Rightarrow> (Inl (Exc exc), w'\<lparr>modules := (modules w')(n := None)\<rparr>)
       | (None, w') \<Rightarrow> (Inr (nsNext w), w'))"
    using a by (simp add: loadModule_def newNs_def Let_def)
  { assume "op newEc w2 = (None, w3)"
    then show "loadModule env ec n w = (Inr (nsNext w), w3)" using l by simp }
  { assume f: "op newEc w2 = (Some exc, w3)"
    then show "loadModule env ec n w = (Inl (Exc exc), w3\<lparr>modules := (modules w3)(n := None)\<rparr>)"
      using l by simp
    then show "modules (snd (loadModule env ec n w)) n = None" by simp }
next
  assume "fst (loadModule env ec n w) = Inl (Plain e)"
  then show "modules (snd (loadModule env ec n w)) = modules w"
    by (auto simp: loadModule_def newNs_def Let_def split: option.splits if_splits sum.splits prod.splits)
qed

text \<open>
  In the example: loading \<open>ok\<close> returns its new namespace and caches it, loading
  it again from there changes nothing, and loading \<open>bad\<close>, whose body raises,
  throws and leaves no entry.
\<close>

theorem loadModule_cache_witness:
  "loadModule exampleEnv exampleFrame ''ok'' exampleWorld
     = (Inr 2, \<lparr>nsMaps = (\<lambda>r. Map.empty), nsNext = 4, modules = [''ok'' \<mapsto> 2]\<rparr>)
   \<and> loadModule exampleEnv exampleFrame ''ok''
        \<lparr>nsMaps = (\<lambda>r. Map.empty), nsNext = 4, modules = [''ok'' \<mapsto> 2]\<rparr>
     = (Inr 2, \<lparr>nsMaps = (\<lambda>r. Map.empty), nsNext = 4, modules = [''ok'' \<mapsto> 2]\<rparr>)
   \<and> loadModule exampleEnv exampleFrame ''bad'' exampleWorld
     = (Inl (Exc (Exception (Errorf ''bad'') [])),
        \<lparr>nsMaps = (\<lambda>r. Map.empty), nsNext = 4, modules = Map.empty\<rparr>)"
proof -
  have none: "modules exampleWorld n = None" for n
    by (simp add: exampleWorld_def)
  have dir: "libDir exampleEnv \<noteq> []"
    by (simp add: exampleEnv_def)
  have src: "moduleSource exampleEnv ''ok'' = Inr (''<builtin module>'', ''put ok'')"
    "moduleSource exampleEnv ''bad'' = Inr (''<builtin module>'', ''fail bad'')"
    by (simp_all add: moduleSource_def exampleEnv_def)
  have parse: "Parse exampleEnv n c = Inr c" for n c
    by (simp add: exampleEnv_def)
  have comp: "Compile exampleEnv f ''put ok'' m = Inr (\<lambda>f w. (None, w))"
    "Compile exampleEnv f ''fail bad'' m = Inr (\<lambda>f w. (Some (Exception (Errorf ''bad'') []), w))"
    for f m
    by (simp_all add: exampleEnv_def)
  have w2: "(snd (newNs (snd (newNs exampleWorld))))\<lparr>modules := (modules exampleWorld)(n \<mapsto> 2)\<rparr>
      = \<lparr>nsMaps = (\<lambda>r. Map.empty), nsNext = 4, modules = [n \<mapsto> 2]\<rparr>" for n
    by (simp add: newNs_def exampleWorld_def fun_eq_iff)
  have next2: "nsNext exampleWorld = 2"
    by (simp add: exampleWorld_def)
  note ok = loadModule_cache [THEN conjunct2, THEN conjunct1, rule_format,
      OF none dir src(1) parse refl comp(1) refl]
  note bad = loadModule_cache [THEN conjunct2, THEN conjunct1, rule_format,
      OF none dir src(2) parse refl comp(2) refl]
  have "loadModule exampleEnv exampleFrame ''ok'' exampleWorld
     = (Inr 2, \<lparr>nsMaps = (\<lambda>r. Map.empty), nsNext = 4, modules = [''ok'' \<mapsto> 2]\<rparr>)"
    using ok [where ec = exampleFrame, THEN conjunct2, THEN conjunct2, THEN conjunct1, rule_format]
    by (simp add: w2 next2)
  moreover have "loadModule exampleEnv exampleFrame ''ok''
        \<lparr>nsMaps = (\<lambda>r. Map.empty), nsNext = 4, modules = [''ok'' \<mapsto> 2]\<rparr>
     = (Inr 2, \<lparr>nsMaps = (\<lambda>r. Map.empty), nsNext = 4, modules = [''ok'' \<mapsto> 2]\<rparr>)"
    using ok [where ec = exampleFrame and ec' = exampleFrame, THEN conjunct2, THEN conjunct1]
    by (simp add: w2 next2)
  moreover have "loadModule exampleEnv exampleFrame ''bad'' exampleWorld
     = (Inl (Exc (Exception (Errorf ''bad'') [])),
        \<lparr>nsMaps = (\<lambda>r. Map.empty), nsNext = 4, modules = Map.empty\<rparr>)"
    using bad [where ec = exampleFrame, THEN conjunct2, THEN conjunct2, THEN conjunct2,
        rule_format, THEN conjunct1]
    by (simp add: w2 next2)
  ultimately show ?thesis by simp
qed

subsection \<open>Relative use\<close>

text \<open>
  C6. A module path that begins with \<open>./\<close> or \<open>../\<close>, used from a frame whose
  source is not a module, throws \<open>ErrRelativeUseNotFromMod\<close>; from a module, the
  path is resolved to the cleaned path of the directory of the module's name,
  a separator and the module path. Whenever the resolved path, relative or
  not, begins with \<open>../\<close>, \<open>ErrRelativeUseGoesOutsideLib\<close> is thrown. In these
  three cases the world stays as it was: no module is loaded. Otherwise the
  module at the resolved path is loaded and bound in the local namespace.
\<close>

theorem use_relative:
  "(HasPrefix modpath ''./'' \<or> HasPrefix modpath ''../'' \<longrightarrow> typ (srcMeta ec) \<noteq> SrcModule \<longrightarrow>
      use env ec modname modpath w = (Some (Plain ErrRelativeUseNotFromMod), w))
   \<and> (HasPrefix modpath ''./'' \<or> HasPrefix modpath ''../'' \<longrightarrow> typ (srcMeta ec) = SrcModule \<longrightarrow>
      resolved = Clean (Dir (name (srcMeta ec)) @ ''/'' @ modpath) \<longrightarrow>
        (HasPrefix resolved ''../'' \<longrightarrow>
           use env ec modname modpath w = (Some (Plain ErrRelativeUseGoesOutsideLib), w))
      \<and> (\<not> HasPrefix resolved ''../'' \<longrightarrow>
           use env ec modname modpath w =
             (case loadModule env ec resolved w of
                (Inl t, w') \<Rightarrow> (Some t, w')
              | (Inr ns, w') \<Rightarrow>
                  (None, w'\<lparr>nsMaps := mapAssign (local ec) (modname @ NsSuffix env) (PtrVariable ns)
                                       (nsMaps w')\<rparr>))))
   \<and> (\<not> (HasPrefix modpath ''./'' \<or> HasPrefix modpath ''../'') \<longrightarrow>
      HasPrefix (Clean modpath) ''../'' \<longrightarrow>
      use env ec modname modpath w = (Some (Plain ErrRelativeUseGoesOutsideLib), w))"
  by (auto simp: use_def)

text \<open>
  From the module \<open>a/b/c\<close> of the example: \<open>../../../x\<close> resolves to \<open>../x\<close> and
  is refused; \<open>../x\<close> resolves to \<open>a/x\<close>, which is loaded and bound to \<open>x:\<close>;
  the path \<open>a/../../x\<close>, not relative, is refused as well; and from a frame at
  top level \<open>./x\<close> is refused.
\<close>

theorem use_relative_witness:
  "use exampleEnv exampleFrame ''x'' ''../../../x'' exampleWorld
     = (Some (Plain ErrRelativeUseGoesOutsideLib), exampleWorld)
   \<and> use exampleEnv (exampleFrame\<lparr>srcMeta := (srcMeta exampleFrame)\<lparr>typ := SrcTopLevel\<rparr>\<rparr>)
        ''x'' ''./x'' exampleWorld
     = (Some (Plain ErrRelativeUseNotFromMod), exampleWorld)
   \<and> use exampleEnv exampleFrame ''x'' ''../x'' exampleWorld
     = (None, \<lparr>nsMaps = (\<lambda>r. Map.empty)(0 := [''x:'' \<mapsto> PtrVariable 2]), nsNext = 4,
               modules = [''a/x'' \<mapsto> 2]\<rparr>)
   \<and> use exampleEnv exampleFrame ''x'' ''a/../../x'' exampleWorld
     = (Some (Plain ErrRelativeUseGoesOutsideLib), exampleWorld)"
proof -
  have r1: "Clean (Dir (name (srcMeta exampleFrame)) @ ''/../../../x'') = ''../x''"
    and r2: "Clean (Dir (name (srcMeta exampleFrame)) @ ''/../x'') = ''a/x''"
    and r3: "Clean ''a/../../x'' = ''../x''"
    by (simp_all add: exampleFrame_def Clean_def Dir_def)
  have ld: "loadModule exampleEnv exampleFrame ''a/x'' exampleWorld
      = (Inr 2, \<lparr>nsMaps = (\<lambda>r. Map.empty), nsNext = 4, modules = [''a/x'' \<mapsto> 2]\<rparr>)"
    by (simp add: loadModule_def moduleSource_def exampleEnv_def exampleWorld_def newNs_def
        Let_def fun_eq_iff)
  have m: "typ (srcMeta exampleFrame) = SrcModule" "local exampleFrame = 0"
    "NsSuffix exampleEnv = '':''"
    by (simp_all add: exampleFrame_def exampleEnv_def)
  have "use exampleEnv exampleFrame ''x'' ''../../../x'' exampleWorld
     = (Some (Plain ErrRelativeUseGoesOutsideLib), exampleWorld)"
    using use_relative [where modpath = "''../../../x''" and ec = exampleFrame and env = exampleEnv
        and modname = "''x''" and w = exampleWorld and resolved = "''../x''"]
    by (simp add: r1 m HasPrefix_def)
  moreover have "use exampleEnv (exampleFrame\<lparr>srcMeta := (srcMeta exampleFrame)\<lparr>typ := SrcTopLevel\<rparr>\<rparr>)
        ''x'' ''./x'' exampleWorld
     = (Some (Plain ErrRelativeUseNotFromMod), exampleWorld)"
    using use_relative [where modpath = "''./x''"
        and ec = "exampleFrame\<lparr>srcMeta := (srcMeta exampleFrame)\<lparr>typ := SrcTopLevel\<rparr>\<rparr>"
        and env = exampleEnv and modname = "''x''" and w = exampleWorld]
    by (simp add: HasPrefix_def)
  moreover have "use exampleEnv exampleFrame ''x'' ''../x'' exampleWorld
     = (None, \<lparr>nsMaps = (\<lambda>r. Map.empty)(0 := [''x:'' \<mapsto> PtrVariable 2]), nsNext = 4,
               modules = [''a/x'' \<mapsto> 2]\<rparr>)"
    using use_relative [where modpath = "''../x''" and ec = exampleFrame and env = exampleEnv
        and modname = "''x''" and w = exampleWorld and resolved = "''a/x''"]
    by (simp add: r2 m HasPrefix_def ld mapAssign_def fun_eq_iff)
  moreover have "use exampleEnv exampleFrame ''x'' ''a/../../x'' exampleWorld
     = (Some (Plain ErrRelativeUseGoesOutsideLib), exampleWorld)"
    using use_relative [where modpath = "''a/../../x''" and ec = exampleFrame and env = exampleEnv
        and modname = "''x''" and w = exampleWorld]
    by (simp add: r3 HasPrefix_def)
  ultimately show ?thesis by simp
qed

end
